theory Spec2Isabelle
  imports Main
begin

section \<open>Configuration resolver (cli.ts)\<close>

text \<open>
  The interface \<^verbatim>\<open>CliOptions\<close> has five optional properties. A property is \<open>None\<close>
  when reading it yields \<^verbatim>\<open>undefined\<close>. The objects built by \<^verbatim>\<open>parseCliOptions\<close>
  only ever store strings taken from the argument array, so for them \<open>None\<close> is the same as
  the key being absent, which is what the object spread in \<^verbatim>\<open>mergeConfig\<close> looks at.
  The property \<^verbatim>\<open>help\<close> is the field \<open>helpFlag\<close>.
\<close>

datatype command = Setup | Server

record CliOptions =
  clientId :: "string option"
  clientSecret :: "string option"
  tokenPath :: "string option"
  command :: "command option"
  helpFlag :: "bool option"

definition empty_options :: CliOptions where
  "empty_options =
     \<lparr>clientId = None, clientSecret = None, tokenPath = None, command = None, helpFlag = None\<rparr>"

text \<open>JavaScript truthiness of an optional string: undefined and the empty string are falsy.\<close>

fun truthy_str :: "string option \<Rightarrow> bool" where
  "truthy_str None = False"
| "truthy_str (Some s) = (s \<noteq> [])"

definition startsWith :: "string \<Rightarrow> string \<Rightarrow> bool" where
  "startsWith s p = (take (length p) s = p)"

text \<open>
  The \<^verbatim>\<open>for\<close> loop of \<^verbatim>\<open>parseCliOptions\<close> (cli.ts, lines 15 to 52), as a recursion
  on the arguments still to be read. The test \<^verbatim>\<open>i + 1 < args.length\<close> holds exactly when
  an argument follows the flag, and \<^verbatim>\<open>args[++i]\<close> reads that argument and steps over it.
  The \<^verbatim>\<open>default\<close> branch is kept as the source has it.
\<close>

fun parse_loop :: "CliOptions \<Rightarrow> string list \<Rightarrow> CliOptions" where
  "parse_loop opts [] = opts"
| "parse_loop opts (arg # rest) =
     (if arg = ''--client-id'' then
        (case rest of
           [] \<Rightarrow> parse_loop opts []
         | v # rest' \<Rightarrow> parse_loop (opts\<lparr>clientId := Some v\<rparr>) rest')
      else if arg = ''--client-secret'' then
        (case rest of
           [] \<Rightarrow> parse_loop opts []
         | v # rest' \<Rightarrow> parse_loop (opts\<lparr>clientSecret := Some v\<rparr>) rest')
      else if arg = ''--token-path'' then
        (case rest of
           [] \<Rightarrow> parse_loop opts []
         | v # rest' \<Rightarrow> parse_loop (opts\<lparr>tokenPath := Some v\<rparr>) rest')
      else if arg = ''-h'' \<or> arg = ''--help'' then
        parse_loop (opts\<lparr>helpFlag := Some True\<rparr>) rest
      else if arg = ''setup'' then
        parse_loop (opts\<lparr>command := Some Setup\<rparr>) rest
      else if arg = ''server'' then
        parse_loop (opts\<lparr>command := Some Server\<rparr>) rest
      else if \<not> startsWith arg ''-'' \<and> command opts = None then
        (if arg = ''setup'' then parse_loop (opts\<lparr>command := Some Setup\<rparr>) rest
         else if arg = ''server'' then parse_loop (opts\<lparr>command := Some Server\<rparr>) rest
         else parse_loop opts rest)
      else parse_loop opts rest)"

definition parseCliOptions :: "string list \<Rightarrow> CliOptions" where
  "parseCliOptions args =
     (let opts = parse_loop empty_options args
      in if command opts = None then opts\<lparr>command := Some Server\<rparr> else opts)"

text \<open>\<^verbatim>\<open>loadEnvConfig\<close> reads three variables of the process environment.\<close>

definition loadEnvConfig :: "(string \<Rightarrow> string option) \<Rightarrow> CliOptions" where
  "loadEnvConfig env =
     \<lparr>clientId = env ''GSC_CLIENT_ID'', clientSecret = env ''GSC_CLIENT_SECRET'',
      tokenPath = env ''GSC_TOKEN_PATH'', command = None, helpFlag = None\<rparr>"

text \<open>
  One property of the spread \<^verbatim>\<open>{...envOptions, ...cliOptions}\<close>: the command-line object
  wins whenever it has the property.
\<close>

definition spread :: "'a option \<Rightarrow> 'a option \<Rightarrow> 'a option" where
  "spread env_v cli_v = (case cli_v of Some v \<Rightarrow> Some v | None \<Rightarrow> env_v)"

text \<open>
  \<^verbatim>\<open>mergeConfig\<close> (cli.ts, lines 69 to 75). The home directory and the library function
  \<^verbatim>\<open>path.join\<close> are parameters. The token path is the chain
  \<^verbatim>\<open>cliOptions.tokenPath || envOptions.tokenPath || path.join(home, '.gsc-oauth-token.json')\<close>,
  where \<^verbatim>\<open>||\<close> moves on from every falsy operand.
\<close>

definition mergeConfig ::
  "(string \<Rightarrow> string \<Rightarrow> string) \<Rightarrow> string \<Rightarrow> CliOptions \<Rightarrow> CliOptions \<Rightarrow> CliOptions" where
  "mergeConfig path_join home cliOptions envOptions =
     \<lparr>clientId = spread (clientId envOptions) (clientId cliOptions),
      clientSecret = spread (clientSecret envOptions) (clientSecret cliOptions),
      tokenPath =
        (if truthy_str (tokenPath cliOptions) then tokenPath cliOptions
         else if truthy_str (tokenPath envOptions) then tokenPath envOptions
         else Some (path_join home ''.gsc-oauth-token.json'')),
      command = spread (command envOptions) (command cliOptions),
      helpFlag = spread (helpFlag envOptions) (helpFlag cliOptions)\<rparr>"

text \<open>
  The three messages that \<^verbatim>\<open>validateConfig\<close> can push (cli.ts, lines 82, 85 and 89),
  named by what they ask for.
\<close>

datatype config_error = ClientIdRequired | ClientSecretRequired | TokenPathRequired

record validation =
  isValid :: bool
  errors :: "config_error list"

definition validateConfig :: "CliOptions \<Rightarrow> validation" where
  "validateConfig config =
     (let errs =
        (if command config = Some Setup then
           (if \<not> truthy_str (clientId config) then [ClientIdRequired] else []) @
           (if \<not> truthy_str (clientSecret config) then [ClientSecretRequired] else [])
         else if command config = Some Server then
           (if \<not> truthy_str (tokenPath config) then [TokenPathRequired] else [])
         else [])
      in \<lparr>isValid = (length errs = 0), errors = errs\<rparr>)"

section \<open>The runtime's JSON values, \<^verbatim>\<open>JSON.parse\<close> and \<^verbatim>\<open>JSON.stringify\<close>\<close>

text \<open>
  Token records are plain JavaScript objects that the program writes with
  \<^verbatim>\<open>JSON.stringify(tokens, null, 2)\<close> and reads back with \<^verbatim>\<open>JSON.parse\<close>. Both belong to
  the language runtime; they are modelled here after the ECMAScript definition, on the values
  that JSON can carry.

  \<^item> An object is the list of its properties in enumeration order.
  \<^item> A string is the sequence of its UTF-8 bytes, as it is in the token file.
  \<^item> A number \<open>JNum m e\<close> is the decimal \<open>m * 10 ^ e\<close>, kept in normal form (\<open>m\<close> not
    divisible by ten, and \<open>e = 0\<close> when \<open>m = 0\<close>). Every JSON literal denotes such a decimal.
    The runtime rounds it to a double; integers below \<open>2 ^ 53\<close> in magnitude, and so every
    epoch-millisecond timestamp, are exact.
\<close>

datatype jsval =
    JNull
  | JBool bool
  | JNum int int
  | JStr string
  | JArr "jsval list"
  | JObj "(string \<times> jsval) list"

definition code :: "char \<Rightarrow> nat" where
  "code c = of_char c"

definition is_digit :: "char \<Rightarrow> bool" where
  "is_digit c = (48 \<le> code c \<and> code c \<le> 57)"

definition digit_val :: "char \<Rightarrow> nat" where
  "digit_val c = code c - 48"

definition digit_char :: "nat \<Rightarrow> char" where
  "digit_char d = char_of (48 + d)"

fun digits :: "nat \<Rightarrow> string" where
  "digits n = (if n < 10 then [digit_char n] else digits (n div 10) @ [digit_char (n mod 10)])"

definition nat_of_digits :: "string \<Rightarrow> nat" where
  "nat_of_digits ds = foldl (\<lambda>a c. 10 * a + digit_val c) 0 ds"

function norm_dec :: "int \<Rightarrow> int \<Rightarrow> int \<times> int" where
  "norm_dec m e =
     (if m = 0 then (0, 0)
      else if m mod 10 = 0 then norm_dec (m div 10) (e + 1)
      else (m, e))"
  by pat_completeness auto
termination
  by (relation "measure (\<lambda>(m, e). nat \<bar>m\<bar>)") auto

subsection \<open>Property reads and truthiness\<close>

text \<open>
  \<open>js_get k v\<close> is the read \<^verbatim>\<open>v.k\<close> for the property names the program uses
  (\<^verbatim>\<open>expiry_date\<close>, \<^verbatim>\<open>refresh_token\<close>): \<open>None\<close> is \<^verbatim>\<open>undefined\<close>, which is what a
  missing property and every non-object value give.
\<close>

fun js_get :: "string \<Rightarrow> jsval \<Rightarrow> jsval option" where
  "js_get k (JObj kvs) = map_of kvs k"
| "js_get k v = None"

fun truthy :: "jsval \<Rightarrow> bool" where
  "truthy JNull = False"
| "truthy (JBool b) = b"
| "truthy (JNum m e) = (m \<noteq> 0)"
| "truthy (JStr s) = (s \<noteq> [])"
| "truthy (JArr vs) = True"
| "truthy (JObj kvs) = True"

subsection \<open>\<^verbatim>\<open>JSON.parse\<close>\<close>

definition is_ws :: "char \<Rightarrow> bool" where
  "is_ws c = (code c = 32 \<or> code c = 9 \<or> code c = 10 \<or> code c = 13)"

definition skip_ws :: "string \<Rightarrow> string" where
  "skip_ws s = dropWhile is_ws s"

definition hex_val :: "char \<Rightarrow> nat option" where
  "hex_val c =
     (let n = code c
      in if 48 \<le> n \<and> n \<le> 57 then Some (n - 48)
         else if 97 \<le> n \<and> n \<le> 102 then Some (n - 87)
         else if 65 \<le> n \<and> n \<le> 70 then Some (n - 55)
         else None)"

definition hex4 :: "char \<Rightarrow> char \<Rightarrow> char \<Rightarrow> char \<Rightarrow> int option" where
  "hex4 a b c d =
     (case (hex_val a, hex_val b, hex_val c, hex_val d) of
        (Some w, Some x, Some y, Some z) \<Rightarrow>
          Some (((int w * 16 + int x) * 16 + int y) * 16 + int z)
      | _ \<Rightarrow> None)"

text \<open>The UTF-8 bytes of a code point.\<close>

definition utf8 :: "int \<Rightarrow> string" where
  "utf8 n =
     (if n < 0x80 then [char_of n]
      else if n < 0x800 then [char_of (0xC0 + n div 64), char_of (0x80 + n mod 64)]
      else if n < 0x10000 then
        [char_of (0xE0 + n div 4096), char_of (0x80 + n div 64 mod 64), char_of (0x80 + n mod 64)]
      else
        [char_of (0xF0 + n div 262144), char_of (0x80 + n div 4096 mod 64),
         char_of (0x80 + n div 64 mod 64), char_of (0x80 + n mod 64)])"

definition is_high :: "int \<Rightarrow> bool" where
  "is_high u = (0xD800 \<le> u \<and> u < 0xDC00)"

definition is_low :: "int \<Rightarrow> bool" where
  "is_low u = (0xDC00 \<le> u \<and> u < 0xE000)"

text \<open>
  A \<^verbatim>\<open>\uXXXX\<close> escape of a low surrogate at the head of the input, if there is one. It
  takes six characters.
\<close>

definition low_escape :: "string \<Rightarrow> int option" where
  "low_escape s =
     (if 6 \<le> length s \<and> s ! 0 = CHR 0x5C \<and> s ! 1 = CHR ''u'' then
        (case hex4 (s ! 2) (s ! 3) (s ! 4) (s ! 5) of
           Some l \<Rightarrow> if is_low l then Some l else None
         | None \<Rightarrow> None)
      else None)"

definition unescape :: "char \<Rightarrow> char option" where
  "unescape e =
     (if e = CHR 0x22 \<or> e = CHR 0x5C \<or> e = CHR ''/'' then Some e
      else if e = CHR ''b'' then Some (CHR 0x08)
      else if e = CHR ''f'' then Some (CHR 0x0C)
      else if e = CHR ''n'' then Some (CHR 0x0A)
      else if e = CHR ''r'' then Some (CHR 0x0D)
      else if e = CHR ''t'' then Some (CHR 0x09)
      else None)"

definition prepend :: "'a list \<Rightarrow> ('a list \<times> 'b) option \<Rightarrow> ('a list \<times> 'b) option" where
  "prepend xs res = map_option (\<lambda>(ys, r). (xs @ ys, r)) res"

text \<open>
  The characters of a string literal after its opening quote, up to and including the closing
  quote. A surrogate pair written as two escapes is one code point; a surrogate on its own has
  no UTF-8 form and is read as U+FFFD.
\<close>

fun parse_chars :: "string \<Rightarrow> (string \<times> string) option" where
  "parse_chars [] = None"
| "parse_chars (c # r) =
     (if c = CHR 0x22 then Some ([], r)
      else if c = CHR 0x5C then
        (case r of
           [] \<Rightarrow> None
         | e # r1 \<Rightarrow>
             if e = CHR ''u'' then
               (case r1 of
                  h1 # h2 # h3 # h4 # r2 \<Rightarrow>
                    (case hex4 h1 h2 h3 h4 of
                       None \<Rightarrow> None
                     | Some u \<Rightarrow>
                         if is_high u then
                           (case low_escape r2 of
                              Some l \<Rightarrow>
                                prepend (utf8 (0x10000 + (u - 0xD800) * 0x400 + (l - 0xDC00)))
                                  (parse_chars (drop 6 r2))
                            | None \<Rightarrow> prepend (utf8 0xFFFD) (parse_chars r2))
                         else if is_low u then prepend (utf8 0xFFFD) (parse_chars r2)
                         else prepend (utf8 u) (parse_chars r2))
                | _ \<Rightarrow> None)
             else
               (case unescape e of
                  None \<Rightarrow> None
                | Some ch \<Rightarrow> prepend [ch] (parse_chars r1)))
      else if code c < 32 then None
      else prepend [c] (parse_chars r))"

text \<open>
  A number literal: an optional minus sign, an integer part without a leading zero, an
  optional fraction and an optional exponent. Each part is read by a function of its own,
  which returns what it has read and, where the text goes on, the rest.
\<close>

definition number_sign :: "string \<Rightarrow> bool \<times> string" where
  "number_sign s = (if s \<noteq> [] \<and> hd s = CHR ''-'' then (True, tl s) else (False, s))"

definition number_int :: "string \<Rightarrow> string" where
  "number_int s = (if s \<noteq> [] \<and> hd s = CHR ''0'' then ''0'' else takeWhile is_digit s)"

definition number_frac :: "string \<Rightarrow> string option \<times> string" where
  "number_frac s =
     (if s \<noteq> [] \<and> hd s = CHR ''.''
      then (Some (takeWhile is_digit (tl s)), dropWhile is_digit (tl s))
      else (None, s))"

definition number_exp :: "string \<Rightarrow> (bool \<times> string) option \<times> string" where
  "number_exp s =
     (if s \<noteq> [] \<and> (hd s = CHR ''e'' \<or> hd s = CHR ''E'') then
        (let t = tl s;
             u = (if t \<noteq> [] \<and> (hd t = CHR ''-'' \<or> hd t = CHR ''+'') then tl t else t)
         in (Some (t \<noteq> [] \<and> hd t = CHR ''-'', takeWhile is_digit u), dropWhile is_digit u))
      else (None, s))"

text \<open>
  The value of a literal with the given sign, integer digits, fraction digits and exponent.
\<close>

definition number_value ::
  "bool \<Rightarrow> string \<Rightarrow> string option \<Rightarrow> (bool \<times> string) option \<Rightarrow> jsval" where
  "number_value neg ip frac ex =
     (let fd = (case frac of None \<Rightarrow> [] | Some fs \<Rightarrow> fs);
          m = int (nat_of_digits (ip @ fd));
          x = (case ex of
                 None \<Rightarrow> 0
               | Some (eneg, ed) \<Rightarrow>
                   if eneg then - int (nat_of_digits ed) else int (nat_of_digits ed))
              - int (length fd)
      in (case norm_dec (if neg then - m else m) x of (m', e') \<Rightarrow> JNum m' e'))"

definition parse_number :: "string \<Rightarrow> (jsval \<times> string) option" where
  "parse_number s =
     (case number_sign s of (neg, s1) \<Rightarrow>
        if number_int s1 = [] then None
        else
          (case number_frac (drop (length (number_int s1)) s1) of (frac, s3) \<Rightarrow>
             if frac = Some [] then None
             else
               (case number_exp s3 of (ex, s6) \<Rightarrow>
                  if (case ex of None \<Rightarrow> False | Some (eneg, ed) \<Rightarrow> ed = []) then None
                  else Some (number_value neg (number_int s1) frac ex, s6))))"

text \<open>
  Defining a property on the object under construction. A key that is already there keeps
  its place and takes the new value. A new key that is an array index (the canonical decimal
  of a number below \<open>2 ^ 32 - 1\<close>) goes among the index keys in ascending order, which come
  first; any other new key goes last.
\<close>

definition is_array_index :: "string \<Rightarrow> bool" where
  "is_array_index k =
     (k \<noteq> [] \<and> list_all is_digit k \<and> (k = ''0'' \<or> hd k \<noteq> CHR ''0'') \<and>
      int (nat_of_digits k) < 4294967295)"

fun update_property :: "string \<Rightarrow> jsval \<Rightarrow> (string \<times> jsval) list \<Rightarrow> (string \<times> jsval) list" where
  "update_property k v [] = []"
| "update_property k v ((k', v') # kvs) =
     (if k' = k then (k, v) # kvs else (k', v') # update_property k v kvs)"

fun insert_index :: "string \<Rightarrow> jsval \<Rightarrow> (string \<times> jsval) list \<Rightarrow> (string \<times> jsval) list" where
  "insert_index k v [] = [(k, v)]"
| "insert_index k v ((k', v') # kvs) =
     (if is_array_index k' \<and> nat_of_digits k' < nat_of_digits k
      then (k', v') # insert_index k v kvs
      else (k, v) # (k', v') # kvs)"

definition define_property ::
  "(string \<times> jsval) list \<Rightarrow> string \<times> jsval \<Rightarrow> (string \<times> jsval) list" where
  "define_property kvs kv =
     (case kv of (k, v) \<Rightarrow>
        if k \<in> set (map fst kvs) then update_property k v kvs
        else if is_array_index k then insert_index k v kvs
        else kvs @ [(k, v)])"

definition build_object :: "(string \<times> jsval) list \<Rightarrow> (string \<times> jsval) list" where
  "build_object members = foldl define_property [] members"

text \<open>
  The recursive descent over values, array elements and object members. The first argument
  bounds the depth of the calls; \<open>JSON_parse\<close> starts it above the length of the text.
  \<open>parse_elements\<close> and \<open>parse_members\<close> read what follows the opening bracket of an array or
  object that is not empty.
\<close>

fun parse_value :: "nat \<Rightarrow> string \<Rightarrow> (jsval \<times> string) option"
  and parse_elements :: "nat \<Rightarrow> string \<Rightarrow> (jsval list \<times> string) option"
  and parse_members :: "nat \<Rightarrow> string \<Rightarrow> ((string \<times> jsval) list \<times> string) option" where
  "parse_value 0 s = None"
| "parse_value (Suc n) s =
     (case skip_ws s of
        [] \<Rightarrow> None
      | c # r \<Rightarrow>
          if c = CHR ''{'' then
            (case skip_ws r of
               [] \<Rightarrow> None
             | c' # r' \<Rightarrow>
                 if c' = CHR ''}'' then Some (JObj [], r')
                 else map_option (\<lambda>(kvs, r''). (JObj (build_object kvs), r''))
                        (parse_members n r))
          else if c = CHR ''['' then
            (case skip_ws r of
               [] \<Rightarrow> None
             | c' # r' \<Rightarrow>
                 if c' = CHR '']'' then Some (JArr [], r')
                 else map_option (\<lambda>(vs, r''). (JArr vs, r'')) (parse_elements n r))
          else if c = CHR 0x22 then map_option (\<lambda>(str, r'). (JStr str, r')) (parse_chars r)
          else if c = CHR ''-'' \<or> is_digit c then parse_number (c # r)
          else if take 4 (c # r) = ''true'' then Some (JBool True, drop 4 (c # r))
          else if take 5 (c # r) = ''false'' then Some (JBool False, drop 5 (c # r))
          else if take 4 (c # r) = ''null'' then Some (JNull, drop 4 (c # r))
          else None)"
| "parse_elements 0 s = None"
| "parse_elements (Suc n) s =
     (case parse_value n s of
        None \<Rightarrow> None
      | Some (v, r) \<Rightarrow>
          (case skip_ws r of
             [] \<Rightarrow> None
           | c # r' \<Rightarrow>
               if c = CHR '','' then map_option (\<lambda>(vs, r''). (v # vs, r'')) (parse_elements n r')
               else if c = CHR '']'' then Some ([v], r')
               else None))"
| "parse_members 0 s = None"
| "parse_members (Suc n) s =
     (case skip_ws s of
        [] \<Rightarrow> None
      | q # r \<Rightarrow>
          if q \<noteq> CHR 0x22 then None
          else
            (case parse_chars r of
               None \<Rightarrow> None
             | Some (k, r1) \<Rightarrow>
                 (case skip_ws r1 of
                    [] \<Rightarrow> None
                  | c # r2 \<Rightarrow>
                      if c \<noteq> CHR '':'' then None
                      else
                        (case parse_value n r2 of
                           None \<Rightarrow> None
                         | Some (v, r3) \<Rightarrow>
                             (case skip_ws r3 of
                                [] \<Rightarrow> None
                              | c' # r4 \<Rightarrow>
                                  if c' = CHR '','' then
                                    map_option (\<lambda>(kvs, r5). ((k, v) # kvs, r5))
                                      (parse_members n r4)
                                  else if c' = CHR ''}'' then Some ([(k, v)], r4)
                                  else None)))))"

text \<open>\<open>None\<close> is the \<^verbatim>\<open>SyntaxError\<close> that \<^verbatim>\<open>JSON.parse\<close> throws.\<close>

definition JSON_parse :: "string \<Rightarrow> jsval option" where
  "JSON_parse s =
     (case parse_value (Suc (length s)) s of
        None \<Rightarrow> None
      | Some (v, r) \<Rightarrow> if skip_ws r = [] then Some v else None)"

subsection \<open>\<^verbatim>\<open>JSON.stringify\<close> with an indentation of two spaces\<close>

definition hex_digit :: "nat \<Rightarrow> char" where
  "hex_digit d = (if d < 10 then char_of (48 + d) else char_of (87 + d))"

definition quote_char :: "char \<Rightarrow> string" where
  "quote_char c =
     (let n = code c
      in if n = 8 then [CHR 0x5C, CHR ''b'']
         else if n = 9 then [CHR 0x5C, CHR ''t'']
         else if n = 10 then [CHR 0x5C, CHR ''n'']
         else if n = 12 then [CHR 0x5C, CHR ''f'']
         else if n = 13 then [CHR 0x5C, CHR ''r'']
         else if n = 34 then [CHR 0x5C, CHR 0x22]
         else if n = 92 then [CHR 0x5C, CHR 0x5C]
         else if n < 32 then
           [CHR 0x5C, CHR ''u'', CHR ''0'', CHR ''0'', hex_digit (n div 16), hex_digit (n mod 16)]
         else [c])"

definition quote :: "string \<Rightarrow> string" where
  "quote s = CHR 0x22 # concat (map quote_char s) @ [CHR 0x22]"

text \<open>
  \<^verbatim>\<open>Number::toString\<close>: with \<open>k\<close> digits \<open>s\<close> and the decimal point after the \<open>n\<close>-th
  digit, positional notation while \<open>-6 < n \<le> 21\<close> and exponent notation otherwise.
\<close>

definition number_body :: "string \<Rightarrow> int \<Rightarrow> string" where
  "number_body s e =
     (let k = int (length s);
          n = k + e
      in if k \<le> n \<and> n \<le> 21 then s @ replicate (nat (n - k)) (CHR ''0'')
         else if 0 < n \<and> n \<le> 21 then take (nat n) s @ ''.'' @ drop (nat n) s
         else if - 6 < n \<and> n \<le> 0 then ''0.'' @ replicate (nat (- n)) (CHR ''0'') @ s
         else
           take 1 s @ (if length s = 1 then [] else ''.'' @ drop 1 s) @
           ''e'' @ (if n - 1 < 0 then ''-'' else ''+'') @ digits (nat \<bar>n - 1\<bar>))"

definition number_to_string :: "int \<Rightarrow> int \<Rightarrow> string" where
  "number_to_string m0 e0 =
     (case norm_dec m0 e0 of (m, e) \<Rightarrow>
        if m = 0 then ''0''
        else (if m < 0 then ''-'' else []) @ number_body (digits (nat \<bar>m\<bar>)) e)"

definition newline :: string where
  "newline = [CHR 0x0A]"

definition gap :: string where
  "gap = ''  ''"

text \<open>
  The first argument is the current indentation. \<open>serialize_elements\<close> and
  \<open>serialize_members\<close> write the parts of an array or object, joined by a comma, a line break
  and the indentation.
\<close>

fun serialize :: "string \<Rightarrow> jsval \<Rightarrow> string"
  and serialize_elements :: "string \<Rightarrow> jsval list \<Rightarrow> string"
  and serialize_members :: "string \<Rightarrow> (string \<times> jsval) list \<Rightarrow> string" where
  "serialize ind JNull = ''null''"
| "serialize ind (JBool b) = (if b then ''true'' else ''false'')"
| "serialize ind (JNum m e) = number_to_string m e"
| "serialize ind (JStr s) = quote s"
| "serialize ind (JArr vs) =
     (if vs = [] then ''[]''
      else ''['' @ newline @ (ind @ gap) @ serialize_elements (ind @ gap) vs
             @ newline @ ind @ '']'')"
| "serialize ind (JObj kvs) =
     (if kvs = [] then ''{}''
      else ''{'' @ newline @ (ind @ gap) @ serialize_members (ind @ gap) kvs
             @ newline @ ind @ ''}'')"
| "serialize_elements ind [] = []"
| "serialize_elements ind [v] = serialize ind v"
| "serialize_elements ind (v # w # vs) =
     serialize ind v @ '','' @ newline @ ind @ serialize_elements ind (w # vs)"
| "serialize_members ind [] = []"
| "serialize_members ind [(k, v)] = quote k @ '': '' @ serialize ind v"
| "serialize_members ind ((k, v) # kv # kvs) =
     quote k @ '': '' @ serialize ind v @ '','' @ newline @ ind @ serialize_members ind (kv # kvs)"

definition JSON_stringify :: "jsval \<Rightarrow> string" where
  "JSON_stringify v = serialize [] v"

section \<open>Credential lifecycle manager (oauth2-manager.ts)\<close>

subsection \<open>Errors, the token file and the external capabilities\<close>

text \<open>
  The source throws plain \<^verbatim>\<open>Error\<close> objects that differ by their message. Each constructor
  stands for one \<^verbatim>\<open>new Error\<close> of oauth2-manager.ts and carries what the message
  interpolates: line 69 (\<open>AuthorizationDenied\<close>), line 85 (\<open>MissingAuthorizationCode\<close>),
  line 120 (\<open>TokenExchangeFailed\<close>), line 157 (\<open>TokenStorageWriteFailed\<close>), line 170
  (\<open>TokenStorageCorrupt\<close>), line 178 (\<open>NotAuthenticated\<close>) and line 193
  (\<open>TokenRefreshFailed\<close>). \<open>Ext\<close> is an error raised by the runtime or by a library.
\<close>

datatype err =
    Ext string
  | AuthorizationDenied string
  | MissingAuthorizationCode
  | TokenExchangeFailed err
  | TokenStorageWriteFailed err
  | TokenStorageCorrupt err
  | NotAuthenticated
  | TokenRefreshFailed err

text \<open>
  What the file system holds at a path: the bytes of the file and, when reading it fails (a
  directory, a file without read permission), the error of \<^verbatim>\<open>readFile\<close>.
\<close>

record fnode =
  content :: string
  read_error :: "string option"

text \<open>
  The world of the manager: the files by path, and for a token path the failures the
  operating system answers with. \<open>mkdir_error p\<close> is the error of creating the parent
  directory of \<open>p\<close>. \<open>write_error p\<close> is the error of \<^verbatim>\<open>writeFile\<close> at \<open>p\<close>, together with
  the bytes a write that failed half-way has left in the file, if it left any.
\<close>

record world =
  files :: "string \<Rightarrow> fnode option"
  mkdir_error :: "string \<Rightarrow> string option"
  write_error :: "string \<Rightarrow> (string \<times> string option) option"

text \<open>
  A value of the query object of \<^verbatim>\<open>url.parse(req.url, true)\<close>: a string, or the array of
  the values of a parameter that is repeated. \<open>qv_text\<close> is its text in a template literal.
\<close>

datatype qv = QStr string | QList "string list"

fun qv_truthy :: "qv option \<Rightarrow> bool" where
  "qv_truthy None = False"
| "qv_truthy (Some (QStr s)) = (s \<noteq> [])"
| "qv_truthy (Some (QList xs)) = True"

fun join_comma :: "string list \<Rightarrow> string" where
  "join_comma [] = []"
| "join_comma [x] = x"
| "join_comma (x # y # xs) = x @ '','' @ join_comma (y # xs)"

fun qv_text :: "qv \<Rightarrow> string" where
  "qv_text (QStr s) = s"
| "qv_text (QList xs) = join_comma xs"

text \<open>
  What the manager gets from outside: the clock, and the identity provider's answer to a
  refresh request made with a given refresh token. \<open>coerce_ge n v\<close> is the outcome of
  \<^verbatim>\<open>n >= v\<close> for a string, array or object \<open>v\<close>, which the runtime decides by coercion.
\<close>

record capabilities =
  now :: int
  refresh_grant :: "jsval option \<Rightarrow> err + (string \<times> jsval) list"
  coerce_ge :: "int \<Rightarrow> jsval \<Rightarrow> bool"

subsection \<open>\<^verbatim>\<open>saveTokens\<close> and \<^verbatim>\<open>loadTokens\<close>\<close>

definition write_file :: "world \<Rightarrow> string \<Rightarrow> string \<Rightarrow> world" where
  "write_file w p s =
     w\<lparr>files := (files w)
          (p \<mapsto> (case files w p of
                    None \<Rightarrow> \<lparr>content = s, read_error = None\<rparr>
                  | Some f \<Rightarrow> f\<lparr>content := s\<rparr>))\<rparr>"

text \<open>
  \<^verbatim>\<open>saveTokens\<close> (lines 146 to 159). Both file-system calls are inside the \<^verbatim>\<open>try\<close>, so
  either failure is rethrown as the error of line 157. The result is the world afterwards and
  the error, if one was thrown.
\<close>

definition saveTokens :: "world \<Rightarrow> string \<Rightarrow> jsval \<Rightarrow> world \<times> err option" where
  "saveTokens w token_path tokens =
     (case mkdir_error w token_path of
        Some m \<Rightarrow> (w, Some (TokenStorageWriteFailed (Ext m)))
      | None \<Rightarrow>
          (case write_error w token_path of
             Some (m, residue) \<Rightarrow>
               (case residue of
                  None \<Rightarrow> (w, Some (TokenStorageWriteFailed (Ext m)))
                | Some part \<Rightarrow>
                    (write_file w token_path part, Some (TokenStorageWriteFailed (Ext m))))
           | None \<Rightarrow> (write_file w token_path (JSON_stringify tokens), None)))"

text \<open>
  \<^verbatim>\<open>loadTokens\<close> (lines 161 to 172). The result of a missing file is the JavaScript value
  \<^verbatim>\<open>null\<close>; the result of a file is whatever \<^verbatim>\<open>JSON.parse\<close> returns for its text.
\<close>

definition loadTokens :: "world \<Rightarrow> string \<Rightarrow> err + jsval" where
  "loadTokens w token_path =
     (case files w token_path of
        None \<Rightarrow> Inr JNull
      | Some f \<Rightarrow>
          (case read_error f of
             Some m \<Rightarrow> Inl (TokenStorageCorrupt (Ext m))
           | None \<Rightarrow>
               (case JSON_parse (content f) of
                  None \<Rightarrow> Inl (TokenStorageCorrupt (Ext ''SyntaxError''))
                | Some v \<Rightarrow> Inr v)))"

subsection \<open>\<^verbatim>\<open>getAuthClient\<close>\<close>

text \<open>
  Modelled from the spec: \<^verbatim>\<open>refreshAccessToken\<close> belongs to the OAuth2 client library,
  which is not part of the sources. The specification has it request new tokens from the
  provider with the refresh token of the installed credentials, and has the refreshed record
  keep that refresh token if the provider omits it from the refresh response.
\<close>

definition refreshAccessToken :: "capabilities \<Rightarrow> jsval \<Rightarrow> err + jsval" where
  "refreshAccessToken cap credentials =
     (case refresh_grant cap (js_get ''refresh_token'' credentials) of
        Inl e \<Rightarrow> Inl e
      | Inr response \<Rightarrow>
          (case (map_of response ''refresh_token'', js_get ''refresh_token'' credentials) of
             (None, Some rt) \<Rightarrow> Inr (JObj (response @ [(''refresh_token'', rt)]))
           | _ \<Rightarrow> Inr (JObj response)))"

text \<open>The comparison \<^verbatim>\<open>Date.now() >= v\<close>.\<close>

fun now_ge :: "capabilities \<Rightarrow> jsval \<Rightarrow> bool" where
  "now_ge cap (JNum m e) =
     (if 0 \<le> e then m * 10 ^ nat e \<le> now cap else m \<le> now cap * 10 ^ nat (- e))"
| "now_ge cap (JBool b) = ((if b then 1 else 0) \<le> now cap)"
| "now_ge cap JNull = (0 \<le> now cap)"
| "now_ge cap v = coerce_ge cap (now cap) v"

text \<open>
  The result of \<^verbatim>\<open>getAuthClient\<close>: the world afterwards, the number of refresh requests it
  made, and either the error thrown or the client handle, which is known by the credentials
  it holds.
\<close>

record acquisition =
  world_after :: world
  refresh_calls :: nat
  outcome :: "err + jsval"

text \<open>
  \<^verbatim>\<open>getAuthClient\<close> (lines 174 to 202). The guard of line 186 is
  \<^verbatim>\<open>tokens.expiry_date && Date.now() >= tokens.expiry_date\<close>.
\<close>

definition getAuthClient :: "capabilities \<Rightarrow> world \<Rightarrow> string \<Rightarrow> acquisition" where
  "getAuthClient cap w token_path =
     (case loadTokens w token_path of
        Inl e \<Rightarrow> \<lparr>world_after = w, refresh_calls = 0, outcome = Inl e\<rparr>
      | Inr tokens \<Rightarrow>
          if \<not> truthy tokens then
            \<lparr>world_after = w, refresh_calls = 0, outcome = Inl NotAuthenticated\<rparr>
          else if (case js_get ''expiry_date'' tokens of
                     None \<Rightarrow> False
                   | Some expiry \<Rightarrow> truthy expiry \<and> now_ge cap expiry) then
            (case refreshAccessToken cap tokens of
               Inl e \<Rightarrow>
                 \<lparr>world_after = w, refresh_calls = 1, outcome = Inl (TokenRefreshFailed e)\<rparr>
             | Inr refreshedTokens \<Rightarrow>
                 (case saveTokens w token_path refreshedTokens of
                    (w', Some e) \<Rightarrow>
                      \<lparr>world_after = w', refresh_calls = 1,
                       outcome = Inl (TokenRefreshFailed e)\<rparr>
                  | (w', None) \<Rightarrow>
                      \<lparr>world_after = w', refresh_calls = 1, outcome = Inr refreshedTokens\<rparr>))
          else \<lparr>world_after = w, refresh_calls = 0, outcome = Inr tokens\<rparr>)"

text \<open>An integer, such as a time in milliseconds, as a JavaScript number.\<close>

definition js_int :: "int \<Rightarrow> jsval" where
  "js_int n = (case norm_dec n 0 of (m, e) \<Rightarrow> JNum m e)"

subsection \<open>The redirect listener of \<^verbatim>\<open>startAuthFlow\<close>\<close>

text \<open>
  A request as the handler sees it: either \<^verbatim>\<open>url.parse\<close> threw, or it returned the path
  name and the query, of which the handler reads \<^verbatim>\<open>code\<close> and \<^verbatim>\<open>error\<close>.
\<close>

record parsed_url =
  pathname :: "string option"
  query_code :: "qv option"
  query_error :: "qv option"

datatype request = Unparsable err | Parsed parsed_url

text \<open>
  What a handler does to the outside: it answers with a status code, closes the server, and
  calls \<^verbatim>\<open>resolve\<close> or \<^verbatim>\<open>reject\<close> of the promise of \<^verbatim>\<open>startAuthFlow\<close>.
\<close>

datatype action = Respond nat | Close | Resolve | Reject err

text \<open>
  The handler (lines 49 to 133) up to its first \<^verbatim>\<open>await\<close>. It either ends with the
  actions listed, or it has begun the exchange of the code and waits for it (second
  component).
\<close>

definition on_request :: "request \<Rightarrow> action list \<times> qv option" where
  "on_request req =
     (case req of
        Unparsable serverError \<Rightarrow> ([Respond 500, Close, Reject serverError], None)
      | Parsed parsedUrl \<Rightarrow>
          if pathname parsedUrl = Some ''/oauth/callback'' then
            (case query_error parsedUrl of
               Some error \<Rightarrow>
                 if qv_truthy (Some error) then
                   ([Respond 400, Close, Reject (AuthorizationDenied (qv_text error))], None)
                 else if \<not> qv_truthy (query_code parsedUrl) then
                   ([Respond 400, Close, Reject MissingAuthorizationCode], None)
                 else ([], query_code parsedUrl)
             | None \<Rightarrow>
                 if \<not> qv_truthy (query_code parsedUrl) then
                   ([Respond 400, Close, Reject MissingAuthorizationCode], None)
                 else ([], query_code parsedUrl))
          else ([Respond 404], None))"

text \<open>
  The handler from the moment \<^verbatim>\<open>getToken\<close> settles (lines 89 to 121): on success it saves
  the tokens, and the \<^verbatim>\<open>catch\<close> takes a failure of the exchange and a failure of the save
  alike.
\<close>

definition after_exchange ::
  "string \<Rightarrow> world \<Rightarrow> err + (string \<times> jsval) list \<Rightarrow> world \<times> action list" where
  "after_exchange token_path w exchanged =
     (case exchanged of
        Inl tokenError \<Rightarrow> (w, [Respond 500, Close, Reject (TokenExchangeFailed tokenError)])
      | Inr tokens \<Rightarrow>
          (case saveTokens w token_path (JObj tokens) of
             (w', Some tokenError) \<Rightarrow>
               (w', [Respond 500, Close, Reject (TokenExchangeFailed tokenError)])
           | (w', None) \<Rightarrow> (w', [Respond 200, Close, Resolve])))"

text \<open>
  The state of a running flow: the promise, whether the server accepts connections, the
  world, the codes whose exchange is under way, and the status codes answered so far. A
  promise that is settled ignores \<^verbatim>\<open>resolve\<close> and \<^verbatim>\<open>reject\<close>; closing a server twice
  changes nothing.
\<close>

datatype settled = Pending | Resolved | Rejected err

record flow =
  promise :: settled
  listening :: bool
  fs :: world
  waiting :: "qv list"
  responses :: "nat list"

fun perform :: "flow \<Rightarrow> action \<Rightarrow> flow" where
  "perform st (Respond status) = st\<lparr>responses := responses st @ [status]\<rparr>"
| "perform st Close = st\<lparr>listening := False\<rparr>"
| "perform st Resolve = (if promise st = Pending then st\<lparr>promise := Resolved\<rparr> else st)"
| "perform st (Reject e) = (if promise st = Pending then st\<lparr>promise := Rejected e\<rparr> else st)"

text \<open>
  What can happen while the caller awaits the promise: a request reaches the handler; the
  exchange begun by the \<open>i\<close>-th waiting handler settles with an outcome of the provider; the
  server emits \<^verbatim>\<open>error\<close> (line 139), as it does when the port cannot be bound. Requests
  are taken in any state, since connections that are open when the server closes are still
  served.
\<close>

datatype event =
    Request request
  | ExchangeDone nat "err + (string \<times> jsval) list"
  | ServerError err

definition step :: "string \<Rightarrow> flow \<Rightarrow> event \<Rightarrow> flow" where
  "step token_path st ev =
     (case ev of
        Request req \<Rightarrow>
          (case on_request req of
             (acts, None) \<Rightarrow> foldl perform st acts
           | (acts, Some c) \<Rightarrow> (foldl perform st acts)\<lparr>waiting := waiting st @ [c]\<rparr>)
      | ExchangeDone i exchanged \<Rightarrow>
          if i < length (waiting st) then
            (case after_exchange token_path (fs st) exchanged of
               (w', acts) \<Rightarrow>
                 foldl perform
                   (st\<lparr>fs := w', waiting := take i (waiting st) @ drop (Suc i) (waiting st)\<rparr>)
                   acts)
          else st
      | ServerError e \<Rightarrow> perform st (Reject e))"

definition start :: "world \<Rightarrow> flow" where
  "start w = \<lparr>promise = Pending, listening = True, fs = w, waiting = [], responses = []\<rparr>"

definition startAuthFlow :: "string \<Rightarrow> world \<Rightarrow> event list \<Rightarrow> flow" where
  "startAuthFlow token_path w evs = foldl (step token_path) (start w) evs"

section \<open>The variant of the manager that stores the bare refresh token (index.ts)\<close>

text \<open>
  index.ts carries a second version of \<^verbatim>\<open>saveTokens\<close>, \<^verbatim>\<open>loadTokens\<close> and
  \<^verbatim>\<open>getAuthClient\<close> (lines 463 to 509), which writes the refresh token alone as plain text
  and reads it back trimmed. \<^verbatim>\<open>trim\<close> removes the white space and line terminators of
  ECMAScript, given here by their UTF-8 bytes.
\<close>

definition ws_code_points :: "int list" where
  "ws_code_points =
     [0x09, 0x0A, 0x0B, 0x0C, 0x0D, 0x20, 0xA0, 0x1680,
      0x2000, 0x2001, 0x2002, 0x2003, 0x2004, 0x2005, 0x2006, 0x2007, 0x2008, 0x2009, 0x200A,
      0x2028, 0x2029, 0x202F, 0x205F, 0x3000, 0xFEFF]"

definition js_ws :: "string \<Rightarrow> bool" where
  "js_ws s = (s \<in> set (map utf8 ws_code_points))"

fun trim_start :: "string \<Rightarrow> string" where
  "trim_start [] = []"
| "trim_start (c # r) =
     (if js_ws [c] then trim_start r
      else if js_ws (take 2 (c # r)) then trim_start (drop 1 r)
      else if js_ws (take 3 (c # r)) then trim_start (drop 2 r)
      else c # r)"

text \<open>The same on the reversed string, for the white space at the end.\<close>

fun trim_start_rev :: "string \<Rightarrow> string" where
  "trim_start_rev [] = []"
| "trim_start_rev (c # r) =
     (if js_ws [c] then trim_start_rev r
      else if js_ws (rev (take 2 (c # r))) then trim_start_rev (drop 1 r)
      else if js_ws (rev (take 3 (c # r))) then trim_start_rev (drop 2 r)
      else c # r)"

definition trim :: "string \<Rightarrow> string" where
  "trim s = rev (trim_start_rev (rev (trim_start s)))"

text \<open>
  \<^verbatim>\<open>saveTokens\<close> of the variant (index.ts, lines 463 to 477). \<^verbatim>\<open>writeFile\<close> throws for
  data that is not a string, which the \<^verbatim>\<open>catch\<close> rethrows.
\<close>

definition saveTokens_variant :: "world \<Rightarrow> string \<Rightarrow> jsval \<Rightarrow> world \<times> err option" where
  "saveTokens_variant w token_path tokens =
     (case mkdir_error w token_path of
        Some m \<Rightarrow> (w, Some (TokenStorageWriteFailed (Ext m)))
      | None \<Rightarrow>
          (case js_get ''refresh_token'' tokens of
             Some (JStr refresh_token) \<Rightarrow>
               (case write_error w token_path of
                  Some (m, residue) \<Rightarrow>
                    (case residue of
                       None \<Rightarrow> (w, Some (TokenStorageWriteFailed (Ext m)))
                     | Some part \<Rightarrow>
                         (write_file w token_path part,
                          Some (TokenStorageWriteFailed (Ext m))))
                | None \<Rightarrow> (write_file w token_path refresh_token, None))
           | _ \<Rightarrow> (w, Some (TokenStorageWriteFailed (Ext ''ERR_INVALID_ARG_TYPE'')))))"

definition loadTokens_variant :: "world \<Rightarrow> string \<Rightarrow> err + jsval" where
  "loadTokens_variant w token_path =
     (case files w token_path of
        None \<Rightarrow> Inr JNull
      | Some f \<Rightarrow>
          (case read_error f of
             Some m \<Rightarrow> Inl (TokenStorageCorrupt (Ext m))
           | None \<Rightarrow> Inr (JStr (trim (content f)))))"

definition getAuthClient_variant :: "world \<Rightarrow> string \<Rightarrow> err + jsval" where
  "getAuthClient_variant w token_path =
     (case loadTokens_variant w token_path of
        Inl e \<Rightarrow> Inl e
      | Inr refreshToken \<Rightarrow>
          if \<not> truthy refreshToken then Inl NotAuthenticated
          else Inr (JObj [(''refresh_token'', refreshToken)]))"

section \<open>Token records that JSON represents\<close>

text \<open>
  A number is in normal form when its mantissa is not divisible by ten, or is zero together
  with the exponent.
\<close>

definition normal :: "int \<Rightarrow> int \<Rightarrow> bool" where
  "normal m e = (if m = 0 then e = 0 else m mod 10 \<noteq> 0)"

text \<open>
  The values that an object in memory can be and that \<^verbatim>\<open>JSON.stringify\<close> writes in full:
  numbers in normal form, and objects whose keys are distinct and are not array indices
  (which an object enumerates first, whatever the order they were added in).
\<close>

fun representable :: "jsval \<Rightarrow> bool"
  and representable_list :: "jsval list \<Rightarrow> bool"
  and representable_members :: "(string \<times> jsval) list \<Rightarrow> bool" where
  "representable JNull = True"
| "representable (JBool b) = True"
| "representable (JNum m e) = normal m e"
| "representable (JStr s) = True"
| "representable (JArr vs) = representable_list vs"
| "representable (JObj kvs) =
     (distinct (map fst kvs) \<and> list_all (\<lambda>k. \<not> is_array_index k) (map fst kvs) \<and>
      representable_members kvs)"
| "representable_list [] = True"
| "representable_list (v # vs) = (representable v \<and> representable_list vs)"
| "representable_members [] = True"
| "representable_members ((k, v) # kvs) = (representable v \<and> representable_members kvs)"

text \<open>Where a number literal ends: at the end of the text or before a character that cannot
  continue it.\<close>

definition stops :: "string \<Rightarrow> bool" where
  "stops rest =
     (rest = [] \<or>
      (\<not> is_digit (hd rest) \<and> hd rest \<noteq> CHR ''.'' \<and> hd rest \<noteq> CHR ''e'' \<and>
       hd rest \<noteq> CHR ''E''))"

text \<open>
  Two records are equivalent when they agree on the five fields of a token record.
\<close>

definition token_fields :: "string list" where
  "token_fields = [''refresh_token'', ''access_token'', ''scope'', ''token_type'', ''expiry_date'']"

definition equivalent :: "jsval \<Rightarrow> jsval \<Rightarrow> bool" where
  "equivalent a b = list_all (\<lambda>k. js_get k a = js_get k b) token_fields"

section \<open>Example inputs\<close>

text \<open>A world in which no file-system call fails, and a readable file.\<close>

definition healthy :: "(string \<Rightarrow> fnode option) \<Rightarrow> world" where
  "healthy fs0 = \<lparr>files = fs0, mkdir_error = (\<lambda>p. None), write_error = (\<lambda>p. None)\<rparr>"

definition readable :: "string \<Rightarrow> fnode" where
  "readable s = \<lparr>content = s, read_error = None\<rparr>"

text \<open>
  A clock at the given time with a provider that answers every refresh request with a new
  access token and no refresh token.
\<close>

definition provider_at :: "int \<Rightarrow> capabilities" where
  "provider_at t =
     \<lparr>now = t, refresh_grant = (\<lambda>rt. Inr [(''access_token'', JStr ''at2'')]),
      coerce_ge = (\<lambda>n v. False)\<rparr>"

definition callback :: "qv option \<Rightarrow> qv option \<Rightarrow> request" where
  "callback c e =
     Parsed \<lparr>pathname = Some ''/oauth/callback'', query_code = c, query_error = e\<rparr>"

definition stray :: request where
  "stray = Parsed \<lparr>pathname = Some ''/favicon.ico'', query_code = None, query_error = None\<rparr>"



section \<open>Properties of the configuration resolver\<close>

subsection \<open>The argument loop, one switch case at a time\<close>

lemma pl_cid_nil: "parse_loop opts [''--client-id''] = opts"
  by simp
lemma pl_cid_cons: "parse_loop opts (''--client-id'' # v # r) = parse_loop (opts\<lparr>clientId := Some v\<rparr>) r"
  by simp
lemma pl_sec_nil: "parse_loop opts [''--client-secret''] = opts"
  by simp
lemma pl_sec_cons: "parse_loop opts (''--client-secret'' # v # r) = parse_loop (opts\<lparr>clientSecret := Some v\<rparr>) r"
  by simp
lemma pl_tok_nil: "parse_loop opts [''--token-path''] = opts"
  by simp
lemma pl_tok_cons: "parse_loop opts (''--token-path'' # v # r) = parse_loop (opts\<lparr>tokenPath := Some v\<rparr>) r"
  by simp
lemma pl_help: "arg = ''-h'' \<or> arg = ''--help'' \<Longrightarrow> parse_loop opts (arg # r) = parse_loop (opts\<lparr>helpFlag := Some True\<rparr>) r"
  by auto
lemma pl_setup: "parse_loop opts (''setup'' # r) = parse_loop (opts\<lparr>command := Some Setup\<rparr>) r"
  by simp
lemma pl_server: "parse_loop opts (''server'' # r) = parse_loop (opts\<lparr>command := Some Server\<rparr>) r"
  by simp
lemma pl_other: "arg \<noteq> ''--client-id'' \<Longrightarrow> arg \<noteq> ''--client-secret'' \<Longrightarrow> arg \<noteq> ''--token-path'' \<Longrightarrow>
  arg \<noteq> ''-h'' \<Longrightarrow> arg \<noteq> ''--help'' \<Longrightarrow> arg \<noteq> ''setup'' \<Longrightarrow> arg \<noteq> ''server'' \<Longrightarrow>
  parse_loop opts (arg # r) = parse_loop opts r"
  by simp

lemma arg_cases:
  obtains (cid) "arg = ''--client-id''" | (sec) "arg = ''--client-secret''"
  | (tok) "arg = ''--token-path''" | (hlp) "arg = ''-h'' \<or> arg = ''--help''"
  | (csetup) "arg = ''setup''" | (cserver) "arg = ''server''"
  | (other) "arg \<noteq> ''--client-id''" "arg \<noteq> ''--client-secret''" "arg \<noteq> ''--token-path''"
      "arg \<noteq> ''-h''" "arg \<noteq> ''--help''" "arg \<noteq> ''setup''" "arg \<noteq> ''server''"
  by blast

lemma parse_loop_cases_induct
  [case_names Nil cid_last cid sec_last sec tok_last tok hlp csetup cserver other]:
  assumes "\<And>opts. P opts []"
    and "\<And>opts. P opts [''--client-id'']"
    and "\<And>opts v r. P (opts\<lparr>clientId := Some v\<rparr>) r \<Longrightarrow> P opts (''--client-id'' # v # r)"
    and "\<And>opts. P opts [''--client-secret'']"
    and "\<And>opts v r. P (opts\<lparr>clientSecret := Some v\<rparr>) r \<Longrightarrow> P opts (''--client-secret'' # v # r)"
    and "\<And>opts. P opts [''--token-path'']"
    and "\<And>opts v r. P (opts\<lparr>tokenPath := Some v\<rparr>) r \<Longrightarrow> P opts (''--token-path'' # v # r)"
    and "\<And>opts arg r. arg = ''-h'' \<or> arg = ''--help'' \<Longrightarrow>
           P (opts\<lparr>helpFlag := Some True\<rparr>) r \<Longrightarrow> P opts (arg # r)"
    and "\<And>opts r. P (opts\<lparr>command := Some Setup\<rparr>) r \<Longrightarrow> P opts (''setup'' # r)"
    and "\<And>opts r. P (opts\<lparr>command := Some Server\<rparr>) r \<Longrightarrow> P opts (''server'' # r)"
    and "\<And>opts arg r. arg \<noteq> ''--client-id'' \<Longrightarrow> arg \<noteq> ''--client-secret'' \<Longrightarrow>
           arg \<noteq> ''--token-path'' \<Longrightarrow> arg \<noteq> ''-h'' \<Longrightarrow> arg \<noteq> ''--help'' \<Longrightarrow>
           arg \<noteq> ''setup'' \<Longrightarrow> arg \<noteq> ''server'' \<Longrightarrow> P opts r \<Longrightarrow> P opts (arg # r)"
  shows "P opts args"
proof (induction args arbitrary: opts rule: length_induct)
  case (1 args)
  note IH = "1.IH" [rule_format]
  show ?case
  proof (cases args)
    case Nil
    with assms(1) show ?thesis by simp
  next
    case (Cons arg rest)
    have step: "P o' rest" for o' using IH [of rest o'] Cons by simp
    have step2: "P o' r" if "rest = v # r" for o' v r using IH [of r o'] Cons that by simp
    show ?thesis
    proof (cases arg rule: arg_cases)
      case cid
      with Cons assms(2) assms(3) step2 show ?thesis by (cases rest) auto
    next
      case sec
      with Cons assms(4) assms(5) step2 show ?thesis by (cases rest) auto
    next
      case tok
      with Cons assms(6) assms(7) step2 show ?thesis by (cases rest) auto
    next
      case hlp
      with Cons assms(8) step show ?thesis by blast
    next
      case csetup
      with Cons assms(9) step show ?thesis by blast
    next
      case cserver
      with Cons assms(10) step show ?thesis by blast
    next
      case other
      with Cons assms(11) step show ?thesis by blast
    qed
  qed
qed

lemmas pl_simps = pl_cid_nil pl_cid_cons pl_sec_nil pl_sec_cons pl_tok_nil pl_tok_cons
  pl_help pl_setup pl_server pl_other

lemma parse_loop_clientId_unset:
  "clientId opts = None \<Longrightarrow> ''--client-id'' \<notin> set (butlast args) \<Longrightarrow>
   clientId (parse_loop opts args) = None"
  by (induction opts args rule: parse_loop_cases_induct)
     (simp_all only: pl_simps, simp_all split: if_splits)

lemma parse_loop_clientSecret_unset:
  "clientSecret opts = None \<Longrightarrow> ''--client-secret'' \<notin> set (butlast args) \<Longrightarrow>
   clientSecret (parse_loop opts args) = None"
  by (induction opts args rule: parse_loop_cases_induct)
     (simp_all only: pl_simps, simp_all split: if_splits)

lemma parse_loop_tokenPath_unset:
  "tokenPath opts = None \<Longrightarrow> ''--token-path'' \<notin> set (butlast args) \<Longrightarrow>
   tokenPath (parse_loop opts args) = None"
  by (induction opts args rule: parse_loop_cases_induct)
     (simp_all only: pl_simps, simp_all split: if_splits)

lemma parse_loop_command_kept:
  "command opts \<noteq> None \<Longrightarrow> command (parse_loop opts args) \<noteq> None"
  by (induction opts args rule: parse_loop_cases_induct)
     (simp_all only: pl_simps, simp_all)

lemma parse_loop_no_setup:
  "''setup'' \<notin> set args \<Longrightarrow> command opts \<noteq> Some Setup \<Longrightarrow>
   command (parse_loop opts args) \<noteq> Some Setup"
  by (induction opts args rule: parse_loop_cases_induct)
     (simp_all only: pl_simps, simp_all)


subsection \<open>Claims C8, C9 and C10\<close>

text \<open>
  C8, as stated, fails: the token path is chosen with \<^verbatim>\<open>||\<close>, which skips an empty string.
  With the arguments \<^verbatim>\<open>--token-path ""\<close> the command line gives a token path, the empty
  one, and yet the merged path is the one of the environment.
\<close>

theorem mergeConfig_empty_cli_path_counterexample:
  "tokenPath (parseCliOptions [''--token-path'', '''']) = Some '''' \<and>
   tokenPath (mergeConfig (\<lambda>a b. a @ ''/'' @ b) ''/home/u''
                (parseCliOptions [''--token-path'', ''''])
                (loadEnvConfig [''GSC_TOKEN_PATH'' \<mapsto> ''/b''])) = Some ''/b''"
  by (simp add: mergeConfig_def parseCliOptions_def empty_options_def loadEnvConfig_def)

text \<open>
  C8, amended: the merged token path is the command-line value when that is present and not
  empty, otherwise the environment value when that is present and not empty, otherwise
  \<^verbatim>\<open>path.join(home, '.gsc-oauth-token.json')\<close>. Client id and client secret are the
  command-line value whenever the command line has one (an empty one included), otherwise the
  environment value.
\<close>

theorem mergeConfig_precedence:
  fixes path_join :: "string \<Rightarrow> string \<Rightarrow> string" and home :: string
    and cli env :: CliOptions
  defines "m \<equiv> mergeConfig path_join home cli env"
  shows "(tokenPath cli = Some a \<and> a \<noteq> [] \<longrightarrow> tokenPath m = Some a) \<and>
    ((tokenPath cli = None \<or> tokenPath cli = Some []) \<and> tokenPath env = Some b \<and> b \<noteq> []
       \<longrightarrow> tokenPath m = Some b) \<and>
    ((tokenPath cli = None \<or> tokenPath cli = Some []) \<and>
     (tokenPath env = None \<or> tokenPath env = Some [])
       \<longrightarrow> tokenPath m = Some (path_join home ''.gsc-oauth-token.json'')) \<and>
    (clientId cli = Some c \<longrightarrow> clientId m = Some c) \<and>
    (clientId cli = None \<longrightarrow> clientId m = clientId env) \<and>
    (clientSecret cli = Some d \<longrightarrow> clientSecret m = Some d) \<and>
    (clientSecret cli = None \<longrightarrow> clientSecret m = clientSecret env)"
  unfolding m_def by (cases "tokenPath env") (auto simp: mergeConfig_def spread_def)

theorem mergeConfig_precedence_witness:
  "tokenPath (mergeConfig (\<lambda>a b. a @ ''/'' @ b) ''/home/u''
      (parseCliOptions [''--token-path'', ''/a'', ''--client-id'', ''c1'', ''--client-secret'', ''s1''])
      (loadEnvConfig [''GSC_TOKEN_PATH'' \<mapsto> ''/b''])) = Some ''/a'' \<and>
   clientId (mergeConfig (\<lambda>a b. a @ ''/'' @ b) ''/home/u''
      (parseCliOptions [''--token-path'', ''/a'', ''--client-id'', ''c1'', ''--client-secret'', ''s1''])
      (loadEnvConfig [''GSC_TOKEN_PATH'' \<mapsto> ''/b''])) = Some ''c1'' \<and>
   clientSecret (mergeConfig (\<lambda>a b. a @ ''/'' @ b) ''/home/u''
      (parseCliOptions [''--token-path'', ''/a'', ''--client-id'', ''c1'', ''--client-secret'', ''s1''])
      (loadEnvConfig [''GSC_TOKEN_PATH'' \<mapsto> ''/b''])) = Some ''s1'' \<and>
   tokenPath (mergeConfig (\<lambda>a b. a @ ''/'' @ b) ''/home/u''
      (parseCliOptions [])
      (loadEnvConfig [''GSC_TOKEN_PATH'' \<mapsto> ''/b'', ''GSC_CLIENT_ID'' \<mapsto> ''c2''])) = Some ''/b'' \<and>
   clientId (mergeConfig (\<lambda>a b. a @ ''/'' @ b) ''/home/u''
      (parseCliOptions [])
      (loadEnvConfig [''GSC_TOKEN_PATH'' \<mapsto> ''/b'', ''GSC_CLIENT_ID'' \<mapsto> ''c2''])) = Some ''c2'' \<and>
   clientSecret (mergeConfig (\<lambda>a b. a @ ''/'' @ b) ''/home/u''
      (parseCliOptions [])
      (loadEnvConfig [''GSC_TOKEN_PATH'' \<mapsto> ''/b'', ''GSC_CLIENT_ID'' \<mapsto> ''c2''])) = None \<and>
   tokenPath (mergeConfig (\<lambda>a b. a @ ''/'' @ b) ''/home/u''
      (parseCliOptions []) (loadEnvConfig Map.empty)) = Some ''/home/u/.gsc-oauth-token.json''"
  using
    mergeConfig_precedence [where path_join = "\<lambda>a b. a @ ''/'' @ b" and home = "''/home/u''"
      and cli = "parseCliOptions
        [''--token-path'', ''/a'', ''--client-id'', ''c1'', ''--client-secret'', ''s1'']"
      and env = "loadEnvConfig [''GSC_TOKEN_PATH'' \<mapsto> ''/b'']"
      and a = "''/a''" and c = "''c1''" and d = "''s1''"]
    mergeConfig_precedence [where path_join = "\<lambda>a b. a @ ''/'' @ b" and home = "''/home/u''"
      and cli = "parseCliOptions []"
      and env = "loadEnvConfig [''GSC_TOKEN_PATH'' \<mapsto> ''/b'', ''GSC_CLIENT_ID'' \<mapsto> ''c2'']"
      and b = "''/b''"]
    mergeConfig_precedence [where path_join = "\<lambda>a b. a @ ''/'' @ b" and home = "''/home/u''"
      and cli = "parseCliOptions []" and env = "loadEnvConfig Map.empty"]
  by (simp add: parseCliOptions_def empty_options_def loadEnvConfig_def)

text \<open>
  C9: \<^verbatim>\<open>validateConfig\<close> is command-specific. For \<^verbatim>\<open>setup\<close> the result is valid exactly
  when client id and client secret are both present and not empty, and the error list has one
  message for each of the two that is missing; for \<^verbatim>\<open>server\<close> the result is valid exactly
  when the token path is present and not empty; and \<open>isValid\<close> is true exactly when the
  error list is empty.
\<close>

theorem validateConfig_command_specific:
  "(command config = Some Setup \<longrightarrow>
      (isValid (validateConfig config) \<longleftrightarrow>
         (\<exists>a. clientId config = Some a \<and> a \<noteq> []) \<and>
         (\<exists>b. clientSecret config = Some b \<and> b \<noteq> [])) \<and>
      errors (validateConfig config) =
         (if \<exists>a. clientId config = Some a \<and> a \<noteq> [] then [] else [ClientIdRequired]) @
         (if \<exists>b. clientSecret config = Some b \<and> b \<noteq> [] then []
          else [ClientSecretRequired])) \<and>
   (command config = Some Server \<longrightarrow>
      (isValid (validateConfig config) \<longleftrightarrow> (\<exists>p. tokenPath config = Some p \<and> p \<noteq> []))) \<and>
   (isValid (validateConfig config) \<longleftrightarrow> errors (validateConfig config) = [])"
  by (cases "clientId config"; cases "clientSecret config"; cases "tokenPath config")
     (auto simp: validateConfig_def Let_def)

theorem validateConfig_command_specific_witness:
  "isValid (validateConfig
      (parseCliOptions [''--client-id'', ''c1'', ''--client-secret'', ''s1'', ''setup''])) \<and>
   errors (validateConfig (parseCliOptions [''--client-id'', ''c1'', ''setup''])) =
      [ClientSecretRequired] \<and>
   \<not> isValid (validateConfig (parseCliOptions [''--client-id'', ''c1'', ''server'']))"
  using
    validateConfig_command_specific
      [of "parseCliOptions [''--client-id'', ''c1'', ''--client-secret'', ''s1'', ''setup'']"]
    validateConfig_command_specific [of "parseCliOptions [''--client-id'', ''c1'', ''setup'']"]
    validateConfig_command_specific [of "parseCliOptions [''--client-id'', ''c1'', ''server'']"]
  by (simp add: parseCliOptions_def empty_options_def)

text \<open>
  C10, as stated, fails: a value-taking flag that ends the argument list leaves its option as
  the earlier arguments set it, which need not be unset.
\<close>

theorem parseCliOptions_trailing_flag_counterexample:
  "clientId (parseCliOptions [''--client-id'', ''abc'', ''--client-id'']) = Some ''abc''"
  by (simp add: parseCliOptions_def empty_options_def)

text \<open>
  C10, amended: when a value-taking flag (\<^verbatim>\<open>--client-id\<close>, \<^verbatim>\<open>--client-secret\<close> or
  \<^verbatim>\<open>--token-path\<close>) is the final argument and does not occur before, its option is left
  unset; \<^verbatim>\<open>parseCliOptions\<close> is a total function, so it does not fail; and for every
  argument list the command is \<^verbatim>\<open>setup\<close> or \<^verbatim>\<open>server\<close>, and it is \<^verbatim>\<open>server\<close> when no
  argument is \<^verbatim>\<open>setup\<close>.
\<close>

theorem parseCliOptions_trailing_flag:
  "(''--client-id'' \<notin> set args \<longrightarrow>
      clientId (parseCliOptions (args @ [''--client-id''])) = None) \<and>
   (''--client-secret'' \<notin> set args \<longrightarrow>
      clientSecret (parseCliOptions (args @ [''--client-secret''])) = None) \<and>
   (''--token-path'' \<notin> set args \<longrightarrow>
      tokenPath (parseCliOptions (args @ [''--token-path''])) = None) \<and>
   (command (parseCliOptions args) = Some Setup \<or> command (parseCliOptions args) = Some Server) \<and>
   (''setup'' \<notin> set args \<longrightarrow> command (parseCliOptions args) = Some Server)"
proof -
  have fields: "clientId (parseCliOptions xs) = clientId (parse_loop empty_options xs)"
    "clientSecret (parseCliOptions xs) = clientSecret (parse_loop empty_options xs)"
    "tokenPath (parseCliOptions xs) = tokenPath (parse_loop empty_options xs)" for xs
    by (simp_all add: parseCliOptions_def Let_def)
  have c1: "''--client-id'' \<notin> set args \<longrightarrow>
      clientId (parseCliOptions (args @ [''--client-id''])) = None"
    using parse_loop_clientId_unset [of empty_options "args @ [''--client-id'']"]
    by (simp add: fields empty_options_def)
  have c2: "''--client-secret'' \<notin> set args \<longrightarrow>
      clientSecret (parseCliOptions (args @ [''--client-secret''])) = None"
    using parse_loop_clientSecret_unset [of empty_options "args @ [''--client-secret'']"]
    by (simp add: fields empty_options_def)
  have c3: "''--token-path'' \<notin> set args \<longrightarrow>
      tokenPath (parseCliOptions (args @ [''--token-path''])) = None"
    using parse_loop_tokenPath_unset [of empty_options "args @ [''--token-path'']"]
    by (simp add: fields empty_options_def)
  have c4: "command (parseCliOptions args) = Some Setup \<or>
            command (parseCliOptions args) = Some Server"
  proof (cases "command (parse_loop empty_options args)")
    case None
    then show ?thesis by (simp add: parseCliOptions_def)
  next
    case (Some cmd)
    then show ?thesis by (cases cmd) (simp_all add: parseCliOptions_def)
  qed
  have c5: "''setup'' \<notin> set args \<longrightarrow> command (parseCliOptions args) = Some Server"
  proof
    assume "''setup'' \<notin> set args"
    then have "command (parse_loop empty_options args) \<noteq> Some Setup"
      by (rule parse_loop_no_setup) (simp add: empty_options_def)
    then have "command (parseCliOptions args) \<noteq> Some Setup"
      by (simp add: parseCliOptions_def Let_def)
    with c4 show "command (parseCliOptions args) = Some Server" by simp
  qed
  from c1 c2 c3 c4 c5 show ?thesis by blast
qed

theorem parseCliOptions_trailing_flag_witness:
  "clientId (parseCliOptions ([''--help'', ''x''] @ [''--client-id''])) = None \<and>
   clientSecret (parseCliOptions ([''--help'', ''x''] @ [''--client-secret''])) = None \<and>
   tokenPath (parseCliOptions ([''--help'', ''x''] @ [''--token-path''])) = None \<and>
   command (parseCliOptions [''--help'', ''x'']) = Some Server"
  using parseCliOptions_trailing_flag [of "[''--help'', ''x'']"] by simp

section \<open>Properties of the credential lifecycle manager\<close>

subsection \<open>Integers as JavaScript numbers\<close>


lemma norm_dec_zero: "norm_dec 0 e = (0, 0)"
  by simp



subsection \<open>Claim C1: when \<^verbatim>\<open>getAuthClient\<close> refreshes\<close>





subsection \<open>Claim C4: absence and corruption\<close>






subsection \<open>Claim C5: the refreshed record is persisted\<close>

lemma saveTokens_ok:
  "saveTokens w p v = (w', None) \<Longrightarrow> w' = write_file w p (JSON_stringify v)"
  by (auto simp: saveTokens_def split: option.splits prod.splits)

lemma write_file_content:
  "\<exists>f. files (write_file w p s) p = Some f \<and> content f = s"
  by (simp add: write_file_def split: option.splits)

text \<open>
  C5: whenever \<^verbatim>\<open>getAuthClient\<close> has made a refresh request and returns the handle, the
  token file holds the serialized refreshed record, written over what was there, and the
  handle holds the same record. When the provider's response has no refresh token, the
  refreshed record has the refresh token of the record that was loaded. A refresh that is
  followed by a failing save returns no handle.
\<close>

theorem getAuthClient_persists_refreshed:
  assumes "refresh_calls (getAuthClient cap w token_path) = 1"
    and "outcome (getAuthClient cap w token_path) = Inr handle"
  shows "\<exists>tokens response.
           loadTokens w token_path = Inr tokens \<and>
           refresh_grant cap (js_get ''refresh_token'' tokens) = Inr response \<and>
           refreshAccessToken cap tokens = Inr handle \<and>
           (\<exists>f. files (world_after (getAuthClient cap w token_path)) token_path = Some f \<and>
                content f = JSON_stringify handle) \<and>
           (map_of response ''refresh_token'' = None \<longrightarrow>
              js_get ''refresh_token'' handle = js_get ''refresh_token'' tokens)"
proof -
  from assms obtain tokens where l: "loadTokens w token_path = Inr tokens"
    by (cases "loadTokens w token_path") (auto simp: getAuthClient_def)
  from assms l have r: "refreshAccessToken cap tokens = Inr handle"
    and s: "saveTokens w token_path handle = (world_after (getAuthClient cap w token_path), None)"
    by (auto simp: getAuthClient_def split: if_splits sum.splits prod.splits option.splits)
  from r obtain response where g: "refresh_grant cap (js_get ''refresh_token'' tokens) = Inr response"
    by (auto simp: refreshAccessToken_def split: sum.splits)
  from r g have keep: "map_of response ''refresh_token'' = None \<longrightarrow>
      js_get ''refresh_token'' handle = js_get ''refresh_token'' tokens"
    by (cases "js_get ''refresh_token'' tokens")
       (auto simp: refreshAccessToken_def map_add_def split: option.splits)
  from saveTokens_ok [OF s] write_file_content
  have persisted: "\<exists>f. files (world_after (getAuthClient cap w token_path)) token_path = Some f \<and>
            content f = JSON_stringify handle" by simp
  show ?thesis
    using l g r keep persisted
    by (intro exI [of _ tokens] exI [of _ response] conjI)
qed

theorem getAuthClient_persists_refreshed_witness:
  "\<exists>f. files (world_after (getAuthClient (provider_at 2000)
          (healthy [''/tmp/t.json'' \<mapsto> readable (JSON_stringify
             (JObj [(''refresh_token'', JStr ''rt1''), (''expiry_date'', js_int 1000)]))])
          ''/tmp/t.json'')) ''/tmp/t.json'' = Some f \<and>
        content f = JSON_stringify
          (JObj [(''access_token'', JStr ''at2''), (''refresh_token'', JStr ''rt1'')])"
proof -
  let ?tokens = "JObj [(''refresh_token'', JStr ''rt1''), (''expiry_date'', js_int 1000)]"
  let ?w = "healthy [''/tmp/t.json'' \<mapsto> readable (JSON_stringify ?tokens)]"
  let ?r = "getAuthClient (provider_at 2000) ?w ''/tmp/t.json''"
  have c: "refresh_calls ?r = 1" by code_simp
  have h: "outcome ?r = Inr (JObj [(''access_token'', JStr ''at2''), (''refresh_token'', JStr ''rt1'')])"
    by code_simp
  from getAuthClient_persists_refreshed [OF c h] show ?thesis by (elim exE conjE) (intro exI conjI, assumption+)
qed


subsection \<open>The flow: what its steps leave alone\<close>

lemma perform_fs: "fs (perform st a) = fs st"
  by (cases a) simp_all

lemma foldl_perform_fs: "fs (foldl perform st acts) = fs st"
  by (induction acts arbitrary: st) (simp_all add: perform_fs)

lemma perform_waiting: "waiting (perform st a) = waiting st"
  by (cases a) simp_all

lemma foldl_perform_waiting: "waiting (foldl perform st acts) = waiting st"
  by (induction acts arbitrary: st) (simp_all add: perform_waiting)

lemma perform_settled: "promise st \<noteq> Pending \<Longrightarrow> promise (perform st a) = promise st"
  by (cases a) simp_all

lemma foldl_perform_settled:
  "promise st \<noteq> Pending \<Longrightarrow> promise (foldl perform st acts) = promise st"
  by (induction acts arbitrary: st) (simp_all add: perform_settled)

lemma step_settled: "promise st \<noteq> Pending \<Longrightarrow> promise (step p st ev) = promise st"
  by (cases ev)
     (auto simp: step_def foldl_perform_settled perform_settled split: prod.splits option.splits)

lemma run_settled:
  "promise st \<noteq> Pending \<Longrightarrow> promise (foldl (step p) st evs) = promise st"
  by (induction evs arbitrary: st) (simp_all add: step_settled)

lemma on_request_fs: "fs (step p st (Request req)) = fs st"
  by (auto simp: step_def foldl_perform_fs split: prod.splits option.splits)

lemma after_exchange_failed: "after_exchange p w (Inl e) = (w, [Respond 500, Close, Reject (TokenExchangeFailed e)])"
  by (simp add: after_exchange_def)



lemma getAuthClient_world:
  "world_after (getAuthClient cap w p) \<noteq> w \<Longrightarrow>
   \<exists>tokens refreshed. loadTokens w p = Inr tokens \<and> refreshAccessToken cap tokens = Inr refreshed"
  by (auto simp: getAuthClient_def split: sum.splits if_splits prod.splits option.splits)


subsection \<open>Claim C2: failures and the token file\<close>




subsection \<open>Claim C6: what the handler answers\<close>




subsection \<open>Claim C7: the promise settles once\<close>

text \<open>
  C7, as stated, fails: a run in which only a request to an unrelated path arrives leaves
  the promise pending, so it is not settled exactly once in every run.
\<close>

theorem startAuthFlow_stray_only_counterexample:
  "promise (startAuthFlow ''/tmp/t.json'' (healthy Map.empty) [Request stray]) = Pending"
  by (simp add: startAuthFlow_def start_def stray_def step_def on_request_def)

text \<open>
  C7, amended: in every run the promise is settled at most once: once it is settled, no
  further request, exchange or server error changes it. It is settled as soon as a request
  to the callback path is denied or lacks the code, an exchange settles, or the server
  reports an error. Closing a server that is closed changes nothing, the promise included.
\<close>

theorem promise_settles_at_most_once:
  "(promise (startAuthFlow token_path w evs) \<noteq> Pending \<longrightarrow>
      promise (startAuthFlow token_path w (evs @ later)) = promise (startAuthFlow token_path w evs)) \<and>
   (\<not> listening st \<longrightarrow> perform st Close = st) \<and>
   promise (step token_path st (ServerError e)) \<noteq> Pending \<and>
   (i < length (waiting st) \<longrightarrow>
      promise (step token_path st (ExchangeDone i exchanged)) \<noteq> Pending) \<and>
   (pathname u = Some ''/oauth/callback'' \<and>
    (qv_truthy (query_error u) \<or> \<not> qv_truthy (query_code u)) \<longrightarrow>
      promise (step token_path st (Request (Parsed u))) \<noteq> Pending)"
proof -
  have a: "promise (startAuthFlow token_path w evs) \<noteq> Pending \<longrightarrow>
      promise (startAuthFlow token_path w (evs @ later)) = promise (startAuthFlow token_path w evs)"
    by (simp add: startAuthFlow_def run_settled)
  have b: "\<not> listening st \<longrightarrow> perform st Close = st"
    by (cases st) simp
  have c: "promise (step token_path st (ServerError e)) \<noteq> Pending"
    by (simp add: step_def)
  have d: "i < length (waiting st) \<longrightarrow>
      promise (step token_path st (ExchangeDone i exchanged)) \<noteq> Pending"
    by (auto simp: step_def after_exchange_def split: sum.splits prod.splits option.splits)
  have e: "pathname u = Some ''/oauth/callback'' \<and>
    (qv_truthy (query_error u) \<or> \<not> qv_truthy (query_code u)) \<longrightarrow>
      promise (step token_path st (Request (Parsed u))) \<noteq> Pending"
    by (auto simp: step_def on_request_def split: option.splits)
  from a b c d e show ?thesis by (intro conjI)
qed

theorem promise_settles_at_most_once_witness:
  "promise (startAuthFlow ''/tmp/t.json'' (healthy Map.empty)
      ([Request (callback (Some (QStr ''abc123'')) None), Request stray,
        ExchangeDone 0 (Inr [(''refresh_token'', JStr ''rt1'')])] @
       [Request (callback None (Some (QStr ''access_denied''))), ServerError (Ext ''late'')]))
     = Resolved"
proof -
  have r: "promise (startAuthFlow ''/tmp/t.json'' (healthy Map.empty)
      [Request (callback (Some (QStr ''abc123'')) None), Request stray,
       ExchangeDone 0 (Inr [(''refresh_token'', JStr ''rt1'')])]) = Resolved"
    by code_simp
  from promise_settles_at_most_once [where token_path = "''/tmp/t.json''"
      and w = "healthy Map.empty"
      and evs = "[Request (callback (Some (QStr ''abc123'')) None), Request stray,
        ExchangeDone 0 (Inr [(''refresh_token'', JStr ''rt1'')])]"
      and later = "[Request (callback None (Some (QStr ''access_denied''))),
        ServerError (Ext ''late'')]"] r
  show ?thesis by simp
qed


end
